theory Spec2Isabelle
  imports
    Complex_Main
    "HOL-Library.Option_ord"
    "HOL-Library.List_Lexorder"
    "HOL-Library.Char_ord"
begin

section \<open>World Bank data server: a shallow embedding of server.py\<close>

text \<open>
  The server has three resource handlers over a CSV file that is read again on every
  call, and three tool handlers over two HTTP APIs. Everything outside the process is a
  parameter of the model: the state of the CSV file on disk, and the outcome of each
  HTTP GET. Every raise of the source is an \<open>Inl\<close> of the result, every return an
  \<open>Inr\<close>. Logging is left out: it changes no value.
\<close>

subsection \<open>Python values\<close>

text \<open>
  What \<open>response.json()\<close> produces, and what the tools return: None, bool, int, float,
  str, list and dict. A dict is the list of its items in insertion order; the keys of a
  parsed JSON object are strings and pairwise different. A float is written as the real
  number it denotes. A \<open>char\<close> stands for one character of a Python string.
\<close>

datatype json =
    JNull
  | JBool bool
  | JInt int
  | JFloat real
  | JStr string
  | JList "json list"
  | JObj "(string \<times> json) list"

text \<open>Python's exceptions, each with the text that \<open>str(e)\<close> gives.\<close>

datatype py_exception =
    FileNotFoundError string
  | HTTPStatusError string
  | OtherException string
  | IndexError string
  | KeyError string
  | TypeError string
  | AttributeError string

fun str_exception :: "py_exception \<Rightarrow> string" where
  "str_exception (FileNotFoundError m) = m"
| "str_exception (HTTPStatusError m) = m"
| "str_exception (OtherException m) = m"
| "str_exception (IndexError m) = m"
| "str_exception (KeyError m) = m"
| "str_exception (TypeError m) = m"
| "str_exception (AttributeError m) = m"

text \<open>Sequencing of two steps of which the first may raise.\<close>

definition and_then :: "py_exception + 'a \<Rightarrow> ('a \<Rightarrow> py_exception + 'b) \<Rightarrow> py_exception + 'b" where
  "and_then m f = (case m of Inl e \<Rightarrow> Inl e | Inr x \<Rightarrow> f x)"

text \<open>\<open>type(v).__name__\<close>, quoted as the interpreter's messages quote it.\<close>

definition quoted :: "string \<Rightarrow> string" where
  "quoted s = CHR 0x27 # s @ [CHR 0x27]"

fun type_name :: "json \<Rightarrow> string" where
  "type_name JNull = ''NoneType''"
| "type_name (JBool b) = ''bool''"
| "type_name (JInt i) = ''int''"
| "type_name (JFloat r) = ''float''"
| "type_name (JStr s) = ''str''"
| "type_name (JList xs) = ''list''"
| "type_name (JObj kvs) = ''dict''"

text \<open>Truthiness: what \<open>if v:\<close> and \<open>not v\<close> test.\<close>

fun truthy :: "json \<Rightarrow> bool" where
  "truthy JNull = False"
| "truthy (JBool b) = b"
| "truthy (JInt i) = (i \<noteq> 0)"
| "truthy (JFloat r) = (r \<noteq> 0)"
| "truthy (JStr s) = (s \<noteq> [])"
| "truthy (JList xs) = (xs \<noteq> [])"
| "truthy (JObj kvs) = (kvs \<noteq> [])"

text \<open>\<open>len(v)\<close>.\<close>

fun py_len :: "json \<Rightarrow> py_exception + nat" where
  "py_len (JStr s) = Inr (length s)"
| "py_len (JList xs) = Inr (length xs)"
| "py_len (JObj kvs) = Inr (length kvs)"
| "py_len v = Inl (TypeError (''object of type '' @ quoted (type_name v) @ '' has no len()''))"

text \<open>\<open>str(i)\<close> of an integer: its decimal digits.\<close>

fun str_nat :: "nat \<Rightarrow> string" where
  "str_nat n =
     (if n < 10 then [''0123456789'' ! n]
      else str_nat (n div 10) @ [''0123456789'' ! (n mod 10)])"

declare str_nat.simps [simp del]

definition str_int :: "int \<Rightarrow> string" where
  "str_int i = (if i < 0 then CHR ''-'' # str_nat (nat (- i)) else str_nat (nat i))"

text \<open>
  \<open>v[i]\<close> for an index that is not negative (the source uses 0 and 1). A parsed JSON
  object has string keys only, so an integer key is never found; \<open>str\<close> of the
  \<open>KeyError\<close> is the key's \<open>repr\<close>.
\<close>

fun py_getitem :: "json \<Rightarrow> nat \<Rightarrow> py_exception + json" where
  "py_getitem (JList xs) i =
     (if i < length xs then Inr (xs ! i) else Inl (IndexError ''list index out of range''))"
| "py_getitem (JStr s) i =
     (if i < length s then Inr (JStr [s ! i]) else Inl (IndexError ''string index out of range''))"
| "py_getitem (JObj kvs) i = Inl (KeyError (str_nat i))"
| "py_getitem v i = Inl (TypeError (quoted (type_name v) @ '' object is not subscriptable''))"

text \<open>\<open>v.get(k, d)\<close>; \<open>v.get(k)\<close> is \<open>v.get(k, None)\<close>. Only a dict has the method.\<close>

fun py_get :: "json \<Rightarrow> string \<Rightarrow> json \<Rightarrow> py_exception + json" where
  "py_get (JObj kvs) k d = Inr (case map_of kvs k of Some v \<Rightarrow> v | None \<Rightarrow> d)"
| "py_get v k d =
     Inl (AttributeError (quoted (type_name v) @ '' object has no attribute '' @ quoted ''get''))"

text \<open>\<open>list(v.values())\<close> and \<open>list(v.keys())\<close>.\<close>

fun py_values :: "json \<Rightarrow> py_exception + json" where
  "py_values (JObj kvs) = Inr (JList (map snd kvs))"
| "py_values v =
     Inl (AttributeError (quoted (type_name v) @ '' object has no attribute '' @ quoted ''values''))"

fun py_keys :: "json \<Rightarrow> py_exception + json" where
  "py_keys (JObj kvs) = Inr (JList (map (\<lambda>kv. JStr (fst kv)) kvs))"
| "py_keys v =
     Inl (AttributeError (quoted (type_name v) @ '' object has no attribute '' @ quoted ''keys''))"

text \<open>Reading a key of a returned dict: \<open>None\<close> when the key is not there.\<close>

fun field :: "json \<Rightarrow> string \<Rightarrow> json option" where
  "field (JObj kvs) k = map_of kvs k"
| "field v k = None"

subsection \<open>The dataset\<close>

text \<open>
  One row of the CSV file. The handlers read two columns by name, \<open>countryiso3code\<close>
  and \<open>country\<close>; the others are carried along. A cell of a column may be null.
\<close>

record indicator_record =
  countryiso3code :: "string option"
  country :: "string option"
  other_columns :: "(string \<times> json) list"

text \<open>A frame: its columns with the name of each one's type, and its rows in order.\<close>

record dataframe =
  dtypes :: "(string \<times> string) list"
  rows :: "indicator_record list"

text \<open>
  The file on disk when a handler runs: not there, there but refused by
  \<open>pl.read_csv\<close> (with the text of its exception), or read as a frame.
\<close>

datatype file_state = Missing | Unreadable string | Csv dataframe

record deployment =
  server_dir :: string
  csv_file :: file_state

definition DATA_FILE :: "deployment \<Rightarrow> string" where
  "DATA_FILE d = server_dir d @ ''/data/world_bank_indicators.csv''"

definition load_data :: "deployment \<Rightarrow> py_exception + dataframe" where
  "load_data d =
     (case csv_file d of
        Missing \<Rightarrow> Inl (FileNotFoundError (''Data file not found: '' @ DATA_FILE d))
      | Unreadable m \<Rightarrow> Inl (OtherException m)
      | Csv df \<Rightarrow> Inr df)"

subsection \<open>Resource handlers\<close>

text \<open>
  A handler returns text: either \<open>json.dumps\<close> of a value or \<open>write_json\<close> of a frame.
  The two serialisers are library code; the model keeps what they are applied to.
\<close>

datatype 'row json_text = JsonDumps json | WriteJson "'row list"

definition get_schema :: "deployment \<Rightarrow> py_exception + indicator_record json_text" where
  "get_schema d =
     and_then (load_data d) (\<lambda>df.
       Inr (JsonDumps (JObj (map (\<lambda>ct. (fst ct, JStr (snd ct))) (dtypes df)))))"

text \<open>
  \<open>df.select(["countryiso3code", "country"]).unique().sort("countryiso3code")\<close>.
  The library fixes neither the order in which \<open>unique\<close> leaves the rows nor the order
  of rows with equal keys after \<open>sort\<close>; the model keeps first occurrences and sorts
  stably. Null sorts first, strings by their characters.
\<close>

definition select_countries :: "indicator_record list \<Rightarrow> (string option \<times> string option) list" where
  "select_countries rs = map (\<lambda>r. (countryiso3code r, country r)) rs"

definition unique :: "'a list \<Rightarrow> 'a list" where
  "unique xs = remdups xs"

definition sort_by_code :: "(string option \<times> string option) list \<Rightarrow> (string option \<times> string option) list" where
  "sort_by_code ps = sort_key fst ps"

definition get_countries :: "deployment \<Rightarrow> py_exception + (string option \<times> string option) json_text" where
  "get_countries d =
     and_then (load_data d) (\<lambda>df.
       let countries = sort_by_code (unique (select_countries (rows df)))
       in if length countries = 0
          then Inr (JsonDumps (JObj [(''error'', JStr ''No countries found'')]))
          else Inr (WriteJson countries))"

text \<open>\<open>df.filter(pl.col("countryiso3code") == country_code)\<close>: a null cell matches no code.\<close>

definition filter_code :: "string \<Rightarrow> indicator_record list \<Rightarrow> indicator_record list" where
  "filter_code country_code rs = filter (\<lambda>r. countryiso3code r = Some country_code) rs"

definition get_country_indicators :: "deployment \<Rightarrow> string \<Rightarrow> py_exception + indicator_record json_text" where
  "get_country_indicators d country_code =
     and_then (load_data d) (\<lambda>df.
       let filtered = filter_code country_code (rows df)
       in if length filtered = 0
          then Inr (JsonDumps (JObj [(''error'', JStr (''Country not found: '' @ country_code))]))
          else Inr (WriteJson filtered))"

subsection \<open>HTTP\<close>

text \<open>
  One GET of \<open>httpx.Client(timeout=30.0)\<close>: the URL and the query parameters go out;
  either \<open>client.get\<close> raises (timeout, DNS, connection; the text is that of the
  exception), or a response comes back with its status code and its body, which
  \<open>response.json()\<close> either parses or refuses (with the text of its exception).
\<close>

record request =
  url :: string
  params :: "(string \<times> json) list"

datatype body = NotJson string | JsonBody json

datatype http_outcome = TransportError string | Response nat body

type_synonym network = "request \<Rightarrow> http_outcome"

text \<open>
  \<open>response.raise_for_status()\<close> raises \<open>HTTPStatusError\<close> unless the status is 2xx.
  The library's text also names the reason phrase and the URL; no handler of the server
  reads it, so the model keeps the status code only.
\<close>

definition raise_for_status :: "nat \<Rightarrow> py_exception + unit" where
  "raise_for_status st =
     (if 200 \<le> st \<and> st \<le> 299 then Inr ()
      else Inl (HTTPStatusError (''HTTP status '' @ str_nat st)))"

definition response_json :: "body \<Rightarrow> py_exception + json" where
  "response_json b = (case b of NotJson m \<Rightarrow> Inl (OtherException m) | JsonBody v \<Rightarrow> Inr v)"

definition rest_countries_request :: "string \<Rightarrow> request" where
  "rest_countries_request country_code =
     \<lparr>url = ''https://restcountries.com/v3.1/alpha/'' @ country_code, params = []\<rparr>"

definition fetch_rest_countries :: "network \<Rightarrow> string \<Rightarrow> py_exception + json" where
  "fetch_rest_countries net country_code =
     (case net (rest_countries_request country_code) of
        TransportError m \<Rightarrow> Inl (OtherException m)
      | Response st b \<Rightarrow>
          and_then (raise_for_status st) (\<lambda>_.
          and_then (response_json b) (\<lambda>v. py_getitem v 0)))"

text \<open>
  The parameters of the indicator request. \<open>if year:\<close> tests the truthiness of an
  optional integer: it is false for \<open>None\<close> and for 0.
\<close>

definition world_bank_request :: "string \<Rightarrow> string \<Rightarrow> int option \<Rightarrow> request" where
  "world_bank_request country_code indicator year =
     \<lparr>url = ''https://api.worldbank.org/v2/country/'' @ country_code @ ''/indicator/'' @ indicator,
      params =
        [(''format'', JStr ''json''), (''per_page'', JInt 100)] @
        (case year of
           None \<Rightarrow> []
         | Some y \<Rightarrow> if y \<noteq> 0 then [(''date'', JStr (str_int y))] else [])\<rparr>"

definition fetch_world_bank_indicator ::
    "network \<Rightarrow> string \<Rightarrow> string \<Rightarrow> int option \<Rightarrow> py_exception + json" where
  "fetch_world_bank_indicator net country_code indicator year =
     (case net (world_bank_request country_code indicator year) of
        TransportError m \<Rightarrow> Inl (OtherException m)
      | Response st b \<Rightarrow>
          and_then (raise_for_status st) (\<lambda>_.
          and_then (response_json b) (\<lambda>data.
          and_then (py_len data) (\<lambda>n.
            if n < 2 then Inr (JList [])
            else and_then (py_getitem data 1) (\<lambda>d1.
              if \<not> truthy d1 then Inr (JList []) else Inr d1)))))"

subsection \<open>Tool handlers\<close>

text \<open>
  The entries of the returned dict are evaluated in the order they are written, so the
  first one that raises decides the exception. Nothing after the \<open>try\<close> is guarded.
\<close>

definition get_country_info :: "network \<Rightarrow> string \<Rightarrow> py_exception + json" where
  "get_country_info net country_code =
     (case fetch_rest_countries net country_code of
        Inl (HTTPStatusError m) \<Rightarrow>
          Inr (JObj [(''error'', JStr (''Country not found: '' @ country_code))])
      | Inl e \<Rightarrow> Inr (JObj [(''error'', JStr (str_exception e))])
      | Inr data \<Rightarrow>
          and_then (and_then (py_get data ''name'' (JObj [])) (\<lambda>n. py_get n ''common'' JNull)) (\<lambda>name.
          and_then (and_then (py_get data ''capital'' (JList [JNull])) (\<lambda>c. py_getitem c 0)) (\<lambda>capital.
          and_then (py_get data ''region'' JNull) (\<lambda>region.
          and_then (py_get data ''subregion'' JNull) (\<lambda>subregion.
          and_then (and_then (py_get data ''languages'' (JObj [])) py_values) (\<lambda>languages.
          and_then (and_then (py_get data ''currencies'' (JObj [])) py_keys) (\<lambda>currencies.
          and_then (py_get data ''population'' JNull) (\<lambda>population.
          and_then (py_get data ''flag'' JNull) (\<lambda>flag.
            Inr (JObj
              [(''name'', name),
               (''capital'', capital),
               (''region'', region),
               (''subregion'', subregion),
               (''languages'', languages),
               (''currencies'', currencies),
               (''population'', population),
               (''flag'', flag)]))))))))))"

definition get_live_indicator :: "network \<Rightarrow> string \<Rightarrow> string \<Rightarrow> int \<Rightarrow> py_exception + json" where
  "get_live_indicator net country_code indicator year =
     (case fetch_world_bank_indicator net country_code indicator (Some year) of
        Inl (HTTPStatusError m) \<Rightarrow>
          Inr (JObj [(''error'', JStr (''Invalid request for '' @ country_code @ '' / '' @ indicator))])
      | Inl e \<Rightarrow> Inr (JObj [(''error'', JStr (str_exception e))])
      | Inr data \<Rightarrow>
          if \<not> truthy data then
            Inr (JObj
              [(''country'', JStr country_code),
               (''indicator'', JStr indicator),
               (''year'', JInt year),
               (''value'', JNull),
               (''error'', JStr ''No data available'')])
          else
            and_then (py_getitem data 0) (\<lambda>entry.
            and_then (and_then (py_get entry ''country'' (JObj [])) (\<lambda>c. py_get c ''value'' JNull)) (\<lambda>country_name.
            and_then (and_then (py_get entry ''indicator'' (JObj [])) (\<lambda>i. py_get i ''value'' JNull)) (\<lambda>indicator_name.
            and_then (py_get entry ''value'' JNull) (\<lambda>v.
              Inr (JObj
                [(''country'', JStr country_code),
                 (''country_name'', country_name),
                 (''indicator'', JStr indicator),
                 (''indicator_name'', indicator_name),
                 (''year'', JInt year),
                 (''value'', v)]))))))"

text \<open>
  The body of the loop of \<open>compare_countries\<close>: the result of \<open>get_live_indicator\<close>, or
  the error record when it raises.
\<close>

definition compare_countries_body :: "network \<Rightarrow> string \<Rightarrow> string \<Rightarrow> int \<Rightarrow> json" where
  "compare_countries_body net code indicator year =
     (case get_live_indicator net code indicator year of
        Inr result \<Rightarrow> result
      | Inl e \<Rightarrow>
          JObj
            [(''country'', JStr code),
             (''indicator'', JStr indicator),
             (''year'', JInt year),
             (''value'', JNull),
             (''error'', JStr (str_exception e))])"

text \<open>
  The loop appends one result per code. Each iteration makes one GET; \<open>nets k\<close> is what
  the network does to the GET of iteration \<open>k\<close>, so that the same request may be
  answered differently at different times.
\<close>

fun compare_loop ::
    "(nat \<Rightarrow> network) \<Rightarrow> nat \<Rightarrow> string list \<Rightarrow> string \<Rightarrow> int \<Rightarrow> json list \<Rightarrow> json list" where
  "compare_loop nets k [] indicator year results = results"
| "compare_loop nets k (code # codes) indicator year results =
     compare_loop nets (Suc k) codes indicator year
       (results @ [compare_countries_body (nets k) code indicator year])"

definition compare_countries :: "(nat \<Rightarrow> network) \<Rightarrow> string list \<Rightarrow> string \<Rightarrow> int \<Rightarrow> json list" where
  "compare_countries nets country_codes indicator year =
     compare_loop nets 0 country_codes indicator year []"

subsection \<open>Concrete inputs\<close>

text \<open>
  A small dataset and two upstream answers, used to run the handlers: the answer of the
  indicator API for the population of the United States, and an answer whose data array
  holds a string where a record should be.
\<close>

definition row_usa :: indicator_record where
  "row_usa =
     \<lparr>countryiso3code = Some ''USA'', country = Some ''United States'',
      other_columns =
        [(''indicator'', JStr ''NY.GDP.MKTP.CD''), (''date'', JInt 2022),
         (''value'', JInt 25462700000000)]\<rparr>"

definition row_bra :: indicator_record where
  "row_bra =
     \<lparr>countryiso3code = Some ''BRA'', country = Some ''Brazil'',
      other_columns =
        [(''indicator'', JStr ''SP.POP.TOTL''), (''date'', JInt 2022),
         (''value'', JInt 215313498)]\<rparr>"

definition example_frame :: dataframe where
  "example_frame =
     \<lparr>dtypes =
        [(''countryiso3code'', ''String''), (''country'', ''String''),
         (''indicator'', ''String''), (''date'', ''Int64''), (''value'', ''Int64'')],
      rows = [row_usa, row_bra, row_usa]\<rparr>"

definition example_deployment :: deployment where
  "example_deployment = \<lparr>server_dir = ''/srv/app'', csv_file = Csv example_frame\<rparr>"

definition usa_population :: http_outcome where
  "usa_population =
     Response 200 (JsonBody (JList
       [JObj [(''page'', JInt 1), (''pages'', JInt 1), (''total'', JInt 1)],
        JList
          [JObj
             [(''indicator'', JObj [(''id'', JStr ''SP.POP.TOTL''), (''value'', JStr ''Population, total'')]),
              (''country'', JObj [(''id'', JStr ''US''), (''value'', JStr ''United States'')]),
              (''countryiso3code'', JStr ''USA''),
              (''date'', JStr ''2021''),
              (''value'', JInt 333287557)]]]))"

definition malformed_data :: http_outcome where
  "malformed_data = Response 200 (JsonBody (JList [JNull, JList [JStr ''x'']]))"

definition usa_result :: json where
  "usa_result =
     JObj
       [(''country'', JStr ''USA''),
        (''country_name'', JStr ''United States''),
        (''indicator'', JStr ''SP.POP.TOTL''),
        (''indicator_name'', JStr ''Population, total''),
        (''year'', JInt 2022),
        (''value'', JInt 333287557)]"

text \<open>
  A network whose second GET is answered with the malformed data array, and every other
  one with the population of the United States.
\<close>

definition second_call_malformed :: "nat \<Rightarrow> network" where
  "second_call_malformed k = (\<lambda>req. if k = 1 then malformed_data else usa_population)"

text \<open>
  Two answers without data: the one-element array the indicator API sends for an
  indicator it does not know, and an array whose data part is empty.
\<close>

definition no_data_array :: http_outcome where
  "no_data_array =
     Response 200 (JsonBody (JList
       [JObj [(''message'', JList [JObj [(''id'', JStr ''120''), (''key'', JStr ''Invalid value'')]])]]))"

definition empty_data_array :: http_outcome where
  "empty_data_array =
     Response 200 (JsonBody (JList [JObj [(''page'', JInt 0), (''total'', JInt 0)], JList []]))"

text \<open>An answer of the country API for a territory without a capital: the list is empty.\<close>

definition antarctica :: http_outcome where
  "antarctica =
     Response 200 (JsonBody (JList
       [JObj
          [(''name'', JObj [(''common'', JStr ''Antarctica'')]),
           (''capital'', JList []),
           (''region'', JStr ''Antarctic''),
           (''population'', JInt 1000)]]))"

section \<open>Properties\<close>

subsection \<open>Resource handlers\<close>

lemma sort_key_Nil_iff: "sort_key f xs = [] \<longleftrightarrow> xs = []"
  using length_sort [of f xs] by (metis length_0_conv)

text \<open>
  C5. Over a loaded dataset, the country-indicator lookup returns exactly the rows whose
  \<open>countryiso3code\<close> equals the input code as a string: every row of the dataset with
  that code is in the returned frame, and a returned frame is the dataset's rows with
  that code, in the dataset's order, so each returned row carries the input code
  unchanged.
\<close>

theorem get_country_indicators_exact_rows:
  "csv_file d = Csv df \<Longrightarrow>
     (\<forall>r \<in> set (rows df). countryiso3code r = Some country_code \<longrightarrow>
        (\<exists>out. get_country_indicators d country_code = Inr (WriteJson out) \<and> r \<in> set out)) \<and>
     (\<forall>out. get_country_indicators d country_code = Inr (WriteJson out) \<longrightarrow>
        out = filter (\<lambda>r. countryiso3code r = Some country_code) (rows df) \<and>
        (\<forall>r \<in> set out. r \<in> set (rows df) \<and> countryiso3code r = Some country_code))"
  by (auto simp add: load_data_def get_country_indicators_def and_then_def filter_code_def
        filter_empty_conv Let_def)

theorem get_country_indicators_exact_rows_witness:
  "get_country_indicators example_deployment ''USA'' = Inr (WriteJson [row_usa, row_usa]) \<and>
   get_country_indicators example_deployment ''usa'' \<noteq> Inr (WriteJson [row_usa, row_usa])"
  using get_country_indicators_exact_rows [of example_deployment example_frame "''USA''"]
  by (simp add: example_deployment_def example_frame_def row_usa_def row_bra_def
        load_data_def get_country_indicators_def and_then_def filter_code_def)

text \<open>
  C6. When no row of the loaded dataset carries the input code, the country-indicator
  lookup returns the object \<open>{"error": "Country not found: <code>"}\<close> as a value; it does
  not raise.
\<close>

theorem get_country_indicators_not_found:
  "csv_file d = Csv df \<Longrightarrow> \<forall>r \<in> set (rows df). countryiso3code r \<noteq> Some country_code \<Longrightarrow>
     get_country_indicators d country_code =
       Inr (JsonDumps (JObj [(''error'', JStr (''Country not found: '' @ country_code))]))"
  by (simp add: load_data_def get_country_indicators_def and_then_def filter_code_def
        filter_empty_conv Let_def)

theorem get_country_indicators_not_found_witness:
  "get_country_indicators example_deployment ''ZZZ'' =
     Inr (JsonDumps (JObj [(''error'', JStr ''Country not found: ZZZ'')]))"
  using get_country_indicators_not_found [of example_deployment example_frame "''ZZZ''"]
  by (simp add: example_deployment_def example_frame_def row_usa_def row_bra_def)

text \<open>
  C7. Over a loaded dataset with at least one row, the country list lookup returns a
  frame of (code, name) pairs in which no pair occurs twice, whose pairs are those of
  the dataset's rows, and whose codes ascend.
\<close>

theorem get_countries_distinct_sorted:
  "csv_file d = Csv df \<Longrightarrow> rows df \<noteq> [] \<Longrightarrow>
     \<exists>out. get_countries d = Inr (WriteJson out) \<and>
       distinct out \<and>
       sorted (map fst out) \<and>
       set out = (\<lambda>r. (countryiso3code r, country r)) ` set (rows df)"
  by (simp add: load_data_def get_countries_def and_then_def Let_def
        select_countries_def unique_def sort_by_code_def sort_key_Nil_iff)

theorem get_countries_distinct_sorted_witness:
  "get_countries example_deployment =
     Inr (WriteJson [(Some ''BRA'', Some ''Brazil''), (Some ''USA'', Some ''United States'')])"
  using get_countries_distinct_sorted [of example_deployment example_frame]
  by (simp add: example_deployment_def example_frame_def row_usa_def row_bra_def
        load_data_def get_countries_def and_then_def Let_def
        select_countries_def unique_def sort_by_code_def)

text \<open>
  C8. When the CSV file does not exist, the loader raises \<open>FileNotFoundError\<close>, and each
  of the three resource handlers lets it through: the handler ends with that exception,
  not with an error object.
\<close>

theorem missing_file_propagates:
  "csv_file d = Missing \<Longrightarrow>
     load_data d = Inl (FileNotFoundError (''Data file not found: '' @ DATA_FILE d)) \<and>
     get_schema d = Inl (FileNotFoundError (''Data file not found: '' @ DATA_FILE d)) \<and>
     get_countries d = Inl (FileNotFoundError (''Data file not found: '' @ DATA_FILE d)) \<and>
     get_country_indicators d country_code =
       Inl (FileNotFoundError (''Data file not found: '' @ DATA_FILE d))"
  by (simp add: load_data_def get_schema_def get_countries_def get_country_indicators_def
        and_then_def)

theorem missing_file_propagates_witness:
  "get_country_indicators \<lparr>server_dir = ''/srv/app'', csv_file = Missing\<rparr> ''USA'' =
     Inl (FileNotFoundError ''Data file not found: /srv/app/data/world_bank_indicators.csv'')"
  using missing_file_propagates [of "\<lparr>server_dir = ''/srv/app'', csv_file = Missing\<rparr>" "''USA''"]
  by (simp add: DATA_FILE_def)

subsection \<open>The indicator client\<close>

lemma world_bank_request_params:
  "map_of (params (world_bank_request country_code indicator year)) ''format'' = Some (JStr ''json'') \<and>
   map_of (params (world_bank_request country_code indicator year)) ''per_page'' = Some (JInt 100) \<and>
   map_of (params (world_bank_request country_code indicator year)) ''date'' =
     (case year of None \<Rightarrow> None | Some y \<Rightarrow> if y = 0 then None else Some (JStr (str_int y)))"
  by (simp add: world_bank_request_def split: option.splits)

text \<open>
  C9. The request asks for JSON and 100 results per page, and should carry the year as
  its \<open>date\<close> filter whenever a year is given. For the year 0 it does not: the test
  \<open>if year:\<close> takes 0 for no year, so the request goes out without \<open>date\<close>, while for
  2022 the filter is there.
\<close>

theorem world_bank_request_year_zero_has_no_date:
  "params (world_bank_request ''USA'' ''SP.POP.TOTL'' (Some 0)) =
     [(''format'', JStr ''json''), (''per_page'', JInt 100)] \<and>
   map_of (params (world_bank_request ''USA'' ''SP.POP.TOTL'' (Some 0))) ''date'' = None \<and>
   map_of (params (world_bank_request ''USA'' ''SP.POP.TOTL'' (Some 2022))) ''date'' = Some (JStr ''2022'')"
  by (simp add: world_bank_request_def str_int_def) code_simp

lemma fetch_no_data:
  assumes "net (world_bank_request country_code indicator year) = Response st (JsonBody (JList xs))"
    and "200 \<le> st" and "st \<le> 299"
    and "length xs < 2 \<or> \<not> truthy (xs ! 1)"
  shows "fetch_world_bank_indicator net country_code indicator year = Inr (JList [])"
  using assms
  by (auto simp add: fetch_world_bank_indicator_def and_then_def raise_for_status_def
        response_json_def)

lemma fetch_usa_population:
  "fetch_world_bank_indicator (\<lambda>req. usa_population) ''USA'' ''SP.POP.TOTL'' (Some 2022) =
     Inr (JList
          [JObj
             [(''indicator'', JObj [(''id'', JStr ''SP.POP.TOTL''), (''value'', JStr ''Population, total'')]),
              (''country'', JObj [(''id'', JStr ''US''), (''value'', JStr ''United States'')]),
              (''countryiso3code'', JStr ''USA''),
              (''date'', JStr ''2021''),
              (''value'', JInt 333287557)]])"
  by (simp add: fetch_world_bank_indicator_def usa_population_def
        and_then_def raise_for_status_def response_json_def)

lemma get_live_indicator_usa:
  "get_live_indicator (\<lambda>req. usa_population) ''USA'' ''SP.POP.TOTL'' 2022 = Inr usa_result"
  by (simp add: get_live_indicator_def fetch_world_bank_indicator_def usa_population_def
        usa_result_def and_then_def raise_for_status_def response_json_def)

lemma get_live_indicator_malformed:
  "get_live_indicator (\<lambda>req. malformed_data) code indicator year =
     Inl (AttributeError (quoted ''str'' @ '' object has no attribute '' @ quoted ''get''))"
  by (simp add: get_live_indicator_def fetch_world_bank_indicator_def malformed_data_def
        and_then_def raise_for_status_def response_json_def)

text \<open>
  C4. When the GET succeeds with a JSON array that has fewer than two elements, or whose
  second element is null or empty, \<open>get_live_indicator\<close> returns the record that echoes
  country, indicator and year, with a null value and the error text
  \<open>No data available\<close>; it does not raise.
\<close>

theorem get_live_indicator_no_data:
  assumes "net (world_bank_request country_code indicator (Some year)) = Response st (JsonBody (JList xs))"
    and "200 \<le> st" and "st \<le> 299"
    and "length xs < 2 \<or> \<not> truthy (xs ! 1)"
  shows "get_live_indicator net country_code indicator year =
           Inr (JObj
             [(''country'', JStr country_code),
              (''indicator'', JStr indicator),
              (''year'', JInt year),
              (''value'', JNull),
              (''error'', JStr ''No data available'')])"
  using fetch_no_data [of net country_code indicator "Some year" st xs] assms
  by (simp add: get_live_indicator_def)

theorem get_live_indicator_no_data_witness:
  "get_live_indicator (\<lambda>req. no_data_array) ''BRA'' ''SP.POP.TOTL'' 2020 =
     Inr (JObj
       [(''country'', JStr ''BRA''),
        (''indicator'', JStr ''SP.POP.TOTL''),
        (''year'', JInt 2020),
        (''value'', JNull),
        (''error'', JStr ''No data available'')]) \<and>
   get_live_indicator (\<lambda>req. empty_data_array) ''BRA'' ''SP.POP.TOTL'' 2020 =
     Inr (JObj
       [(''country'', JStr ''BRA''),
        (''indicator'', JStr ''SP.POP.TOTL''),
        (''year'', JInt 2020),
        (''value'', JNull),
        (''error'', JStr ''No data available'')])"
  using get_live_indicator_no_data
      [where net = "\<lambda>req. no_data_array" and country_code = "''BRA''"
         and indicator = "''SP.POP.TOTL''" and year = 2020 and st = 200
         and xs = "[JObj [(''message'', JList [JObj [(''id'', JStr ''120''), (''key'', JStr ''Invalid value'')]])]]"]
    get_live_indicator_no_data
      [where net = "\<lambda>req. empty_data_array" and country_code = "''BRA''"
         and indicator = "''SP.POP.TOTL''" and year = 2020 and st = 200
         and xs = "[JObj [(''page'', JInt 0), (''total'', JInt 0)], JList []]"]
  by (simp add: no_data_array_def empty_data_array_def)

text \<open>
  C10. When the fetch yields data and \<open>get_live_indicator\<close> returns, the returned
  record's \<open>country\<close> is the input code and its \<open>year\<close> the input year, whatever the
  upstream record says, and the record has no \<open>error\<close> key.
\<close>

theorem get_live_indicator_echoes_inputs:
  assumes "fetch_world_bank_indicator net country_code indicator (Some year) = Inr data"
    and "truthy data"
    and "get_live_indicator net country_code indicator year = Inr result"
  shows "field result ''country'' = Some (JStr country_code) \<and>
         field result ''year'' = Some (JInt year) \<and>
         field result ''error'' = None"
  using assms
  by (auto simp add: get_live_indicator_def and_then_def split: sum.splits)

theorem get_live_indicator_echoes_inputs_witness:
  "get_live_indicator (\<lambda>req. usa_population) ''USA'' ''SP.POP.TOTL'' 2022 = Inr usa_result \<and>
   field usa_result ''country'' = Some (JStr ''USA'') \<and>
   field usa_result ''year'' = Some (JInt 2022) \<and>
   field usa_result ''error'' = None"
  using get_live_indicator_echoes_inputs
      [where net = "\<lambda>req. usa_population", OF fetch_usa_population _ get_live_indicator_usa]
    get_live_indicator_usa
  by simp

subsection \<open>The country client\<close>

lemma get_country_info_capital_absent:
  "get_country_info (\<lambda>req. Response 200 (JsonBody (JList [JObj [(''region'', JStr ''Antarctic'')]]))) ''ATA'' =
     Inr (JObj
       [(''name'', JNull),
        (''capital'', JNull),
        (''region'', JStr ''Antarctic''),
        (''subregion'', JNull),
        (''languages'', JList []),
        (''currencies'', JList []),
        (''population'', JNull),
        (''flag'', JNull)])"
  by (simp add: get_country_info_def fetch_rest_countries_def
        and_then_def raise_for_status_def response_json_def)

text \<open>
  C3. The capital of the returned record should be the first element of the capital
  list, and null when the list is empty or absent. An absent list gives null, through the
  default \<open>[None]\<close>; an empty list does not: \<open>[][0]\<close> raises \<open>IndexError\<close> after the
  \<open>try\<close>, and the handler ends with that exception.
\<close>

theorem get_country_info_empty_capital_raises:
  "get_country_info (\<lambda>req. antarctica) ''ATA'' = Inl (IndexError ''list index out of range'')"
  by (simp add: get_country_info_def fetch_rest_countries_def antarctica_def
        and_then_def raise_for_status_def response_json_def)

subsection \<open>The comparison\<close>

lemma compare_loop_append:
  "compare_loop nets k codes indicator year results =
     results @ map (\<lambda>i. compare_countries_body (nets (k + i)) (codes ! i) indicator year) [0..<length codes]"
proof (induction codes arbitrary: k results)
  case Nil
  then show ?case by simp
next
  case (Cons code codes)
  have "map (\<lambda>i. compare_countries_body (nets (k + i)) ((code # codes) ! i) indicator year) [0..<length (code # codes)]
      = compare_countries_body (nets k) code indicator year #
        map (\<lambda>i. compare_countries_body (nets (Suc k + i)) (codes ! i) indicator year) [0..<length codes]"
    by (simp add: upt_conv_Cons map_Suc_upt [symmetric] del: upt_Suc)
  then show ?case
    by (simp add: Cons.IH)
qed

lemma compare_countries_nth:
  "i < length country_codes \<Longrightarrow>
     compare_countries nets country_codes indicator year ! i =
       compare_countries_body (nets i) (country_codes ! i) indicator year"
  by (simp add: compare_countries_def compare_loop_append)

lemma length_compare_countries:
  "length (compare_countries nets country_codes indicator year) = length country_codes"
  by (simp add: compare_countries_def compare_loop_append)

text \<open>
  C1. For every list of codes, the empty one included, \<open>compare_countries\<close> returns a
  list as long as the input, and its element at position \<open>i\<close> is what the loop body makes
  of the code at position \<open>i\<close> and of the answer to the GET of iteration \<open>i\<close>: the order
  is the input's, and nothing is merged or sorted.
\<close>

theorem compare_countries_length_and_order:
  "length (compare_countries nets country_codes indicator year) = length country_codes \<and>
   (\<forall>i < length country_codes.
      compare_countries nets country_codes indicator year ! i =
        compare_countries_body (nets i) (country_codes ! i) indicator year)"
  by (simp add: compare_countries_nth length_compare_countries)

theorem compare_countries_length_and_order_witness:
  "length (compare_countries (\<lambda>k req. usa_population) [''USA'', ''BRA'', ''USA''] ''SP.POP.TOTL'' 2022) = 3 \<and>
   compare_countries (\<lambda>k req. usa_population) [''USA'', ''BRA'', ''USA''] ''SP.POP.TOTL'' 2022 ! 1 =
     compare_countries_body (\<lambda>req. usa_population) ''BRA'' ''SP.POP.TOTL'' 2022 \<and>
   compare_countries (\<lambda>k req. usa_population) [] ''SP.POP.TOTL'' 2022 = []"
  using compare_countries_length_and_order
      [of "\<lambda>k req. usa_population" "[''USA'', ''BRA'', ''USA'']" "''SP.POP.TOTL''" 2022]
    compare_countries_length_and_order [of "\<lambda>k req. usa_population" "[]" "''SP.POP.TOTL''" 2022]
  by simp

text \<open>
  C2. When \<open>get_live_indicator\<close> raises for the code at position \<open>i\<close>, the result holds
  at \<open>i\<close> the error record with that code, the indicator, the year, a null value and the
  text of the exception; the loop goes on, so the result is as long as the input and
  every other position holds what the loop body makes of its own code; and those positions
  are the same for every network that differs only in the answer to GET \<open>i\<close>.
\<close>

theorem compare_countries_failure_isolated:
  assumes "i < length country_codes"
    and "get_live_indicator (nets i) (country_codes ! i) indicator year = Inl e"
  shows "compare_countries nets country_codes indicator year ! i =
           JObj
             [(''country'', JStr (country_codes ! i)),
              (''indicator'', JStr indicator),
              (''year'', JInt year),
              (''value'', JNull),
              (''error'', JStr (str_exception e))] \<and>
         length (compare_countries nets country_codes indicator year) = length country_codes \<and>
         (\<forall>j < length country_codes. j \<noteq> i \<longrightarrow>
            compare_countries nets country_codes indicator year ! j =
              compare_countries_body (nets j) (country_codes ! j) indicator year) \<and>
         (\<forall>nets'. (\<forall>k. k \<noteq> i \<longrightarrow> nets' k = nets k) \<longrightarrow>
            (\<forall>j < length country_codes. j \<noteq> i \<longrightarrow>
               compare_countries nets' country_codes indicator year ! j =
                 compare_countries nets country_codes indicator year ! j))"
  using assms
  by (simp add: compare_countries_nth length_compare_countries compare_countries_body_def)

theorem compare_countries_failure_isolated_witness:
  "compare_countries second_call_malformed [''USA'', ''ZZZ''] ''SP.POP.TOTL'' 2022 ! 1 =
     JObj
       [(''country'', JStr ''ZZZ''),
        (''indicator'', JStr ''SP.POP.TOTL''),
        (''year'', JInt 2022),
        (''value'', JNull),
        (''error'', JStr (quoted ''str'' @ '' object has no attribute '' @ quoted ''get''))] \<and>
   compare_countries second_call_malformed [''USA'', ''ZZZ''] ''SP.POP.TOTL'' 2022 ! 0 = usa_result"
proof -
  have raises: "get_live_indicator (second_call_malformed 1) ([''USA'', ''ZZZ''] ! 1) ''SP.POP.TOTL'' 2022 =
      Inl (AttributeError (quoted ''str'' @ '' object has no attribute '' @ quoted ''get''))"
    by (simp add: second_call_malformed_def get_live_indicator_malformed)
  have inside: "(1::nat) < length [''USA'', ''ZZZ'']"
    by simp
  have body: "compare_countries_body (second_call_malformed 0) ([''USA'', ''ZZZ''] ! 0) ''SP.POP.TOTL'' 2022 =
      usa_result"
    by (simp add: second_call_malformed_def compare_countries_body_def get_live_indicator_usa)
  note iso = compare_countries_failure_isolated
      [where i = 1 and country_codes = "[''USA'', ''ZZZ'']" and nets = second_call_malformed,
       OF inside raises]
  note slot = iso [THEN conjunct1]
  note others = iso [THEN conjunct2, THEN conjunct2, THEN conjunct1, rule_format, of 0]
  have "compare_countries second_call_malformed [''USA'', ''ZZZ''] ''SP.POP.TOTL'' 2022 ! 0 =
      compare_countries_body (second_call_malformed 0) ([''USA'', ''ZZZ''] ! 0) ''SP.POP.TOTL'' 2022"
    using others by simp
  with body slot show ?thesis
    by simp
qed

end
